theory Spec2Isabelle
  imports Complex_Main "HOL-Library.Char_ord" "HOL-Library.List_Lexorder"
begin

section \<open>Expense tracker: a shallow embedding of app.py\<close>

text \<open>
  The application is a Flask program over two SQLite tables. The embedding keeps the
  three routes that touch storage (\<open>signup\<close>, \<open>login\<close>, \<open>dashboard\<close>) as functions from
  the request and the database to a response and the database after the request.

  Conventions of the model:
  \<^item> Python \<open>str\<close> and SQLite \<open>TEXT\<close> are \<open>string\<close>, read as the UTF-8 bytes of the text;
    SQLite compares \<open>TEXT\<close> bytewise, shorter prefix first, which is the lexicographic
    order of \<open>HOL-Library.List_Lexorder\<close> over the byte order of \<open>HOL-Library.Char_ord\<close>.
  \<^item> Python \<open>int\<close> and SQLite \<open>INTEGER\<close> are \<open>int\<close>.
  \<^item> \<open>amount REAL\<close> is a Python \<open>float\<close>. An amount is a finite double, written as the
    rational number it denotes, so that comparing doubles is comparing these numbers;
    infinities and NaN are outside the model. What the libraries \<^emph>\<open>compute\<close> with
    doubles (\<open>float\<close> on text, \<open>SUM\<close> in SQLite, \<open>sum\<close> and \<open>round\<close> in Python) is not exact
    arithmetic and is not fixed by the program: these operations are parameters,
    collected in \<open>float_lib\<close>.
  \<^item> The library calls \<open>generate_password_hash\<close> and \<open>check_password_hash\<close> are parameters
    of the routes that use them; \<open>datetime.today()\<close> is a parameter too.
  \<^item> An exception that leaves a route is the response \<open>ServerError\<close>; a missing form key
    is werkzeug's \<open>BadRequestKeyError\<close>, which Flask answers with status 400.
\<close>

subsection \<open>The proleptic Gregorian calendar of \<open>datetime\<close>\<close>

text \<open>
  \<open>datetime\<close> works on ordinals: day 1 is 0001-01-01. The definitions follow the
  reference implementation of the module (\<open>_is_leap\<close>, \<open>_days_before_year\<close>,
  \<open>_days_in_month\<close>, \<open>_days_before_month\<close>, \<open>_ymd2ord\<close>, \<open>_ord2ymd\<close>,
  \<open>_isoweek1monday\<close>). A \<open>datetime\<close> value is modelled by its calendar day: the route
  only ever uses \<open>.date()\<close>, \<open>.weekday()\<close> and the day-level \<open>strftime\<close> fields.
\<close>

datatype date = Date (year_of: int) (month_of: int) (day_of: int)

definition MINYEAR :: int where
  "MINYEAR = 1"

definition MAXYEAR :: int where
  "MAXYEAR = 9999"

definition MAXORDINAL :: int where
  "MAXORDINAL = 3652059"

definition DAYS_IN_MONTH :: "int list" where
  "DAYS_IN_MONTH = [-1, 31, 28, 31, 30, 31, 30, 31, 31, 30, 31, 30, 31]"

definition DAYS_BEFORE_MONTH :: "int list" where
  "DAYS_BEFORE_MONTH = [-1, 0, 31, 59, 90, 120, 151, 181, 212, 243, 273, 304, 334]"

definition is_leap :: "int \<Rightarrow> bool" where
  "is_leap y \<longleftrightarrow> y mod 4 = 0 \<and> (y mod 100 \<noteq> 0 \<or> y mod 400 = 0)"

definition days_before_year :: "int \<Rightarrow> int" where
  "days_before_year y = (y - 1) * 365 + (y - 1) div 4 - (y - 1) div 100 + (y - 1) div 400"


definition days_before_month :: "int \<Rightarrow> int \<Rightarrow> int" where
  "days_before_month y m =
     DAYS_BEFORE_MONTH ! nat m + (if m > 2 \<and> is_leap y then 1 else 0)"

definition ymd2ord :: "int \<Rightarrow> int \<Rightarrow> int \<Rightarrow> int" where
  "ymd2ord y m d = days_before_year y + days_before_month y m + d"

definition toordinal :: "date \<Rightarrow> int" where
  "toordinal dt = ymd2ord (year_of dt) (month_of dt) (day_of dt)"

text \<open>
  \<open>_ord2ymd\<close>: the 400-, 100-, 4- and 1-year cycles are peeled off the zero-based
  ordinal; the month is guessed as \<open>(n + 50) >> 5\<close> and corrected downwards once.
\<close>

definition ord2ymd :: "int \<Rightarrow> date" where
  "ord2ymd n0 =
     (let n = n0 - 1;
          n400 = n div 146097; n = n mod 146097;
          n100 = n div 36524; n = n mod 36524;
          n4 = n div 1461; n = n mod 1461;
          n1 = n div 365; n = n mod 365;
          y = n400 * 400 + 1 + n100 * 100 + n4 * 4 + n1
      in if n1 = 4 \<or> n100 = 4 then Date (y - 1) 12 31
         else
           let leapyear = (n1 = 3 \<and> (n4 \<noteq> 24 \<or> n100 = 3));
               m = (n + 50) div 32;
               preceding = DAYS_BEFORE_MONTH ! nat m + (if m > 2 \<and> leapyear then 1 else 0)
           in if preceding > n
              then let m' = m - 1;
                       preceding' = preceding
                         - (DAYS_IN_MONTH ! nat m' + (if m' = 2 \<and> leapyear then 1 else 0))
                   in Date y m' (n - preceding' + 1)
              else Date y m (n - preceding + 1))"

text \<open>\<open>date.weekday()\<close>: Monday is 0, Sunday is 6.\<close>

definition weekday :: "date \<Rightarrow> int" where
  "weekday dt = (toordinal dt + 6) mod 7"

definition isoweek1monday :: "int \<Rightarrow> int" where
  "isoweek1monday y =
     (let firstday = ymd2ord y 1 1;
          firstweekday = (firstday + 6) mod 7;
          week1monday = firstday - firstweekday
      in if firstweekday > 3 then week1monday + 7 else week1monday)"

text \<open>
  \<open>date.isocalendar()\<close>: ISO year, ISO week and ISO weekday of a day. The \<open>%V\<close> field of
  \<open>strftime\<close> is its week number.
\<close>

definition isocalendar :: "date \<Rightarrow> int \<times> int \<times> int" where
  "isocalendar dt =
     (let y = year_of dt;
          today = toordinal dt;
          week = (today - isoweek1monday y) div 7;
          wd = (today - isoweek1monday y) mod 7
      in if week < 0
         then (y - 1, (today - isoweek1monday (y - 1)) div 7 + 1,
               (today - isoweek1monday (y - 1)) mod 7 + 1)
         else if week \<ge> 52 \<and> today \<ge> isoweek1monday (y + 1)
         then (y + 1, 1, wd + 1)
         else (y, week + 1, wd + 1))"

datatype exn = ValueError | OverflowError | IndexError

text \<open>
  \<open>datetime.fromisocalendar(year, week, day)\<close>. The arguments are converted to C \<open>int\<close>
  first; outside 32 bits the conversion overflows, which the function reports as a
  \<open>ValueError\<close>. Then the year, the week and the day are range-checked in that order
  (\<open>ValueError\<close>). Week 53 exists in a year that starts on a Thursday, and in a leap
  year that starts on a Wednesday.
\<close>

definition c_int_range :: "int \<Rightarrow> bool" where
  "c_int_range i \<longleftrightarrow> - 2147483648 \<le> i \<and> i \<le> 2147483647"

definition fromisocalendar :: "int \<Rightarrow> int \<Rightarrow> int \<Rightarrow> exn + date" where
  "fromisocalendar y w d =
     (if \<not> (c_int_range y \<and> c_int_range w \<and> c_int_range d) then Inl ValueError
      else if y < MINYEAR \<or> y > MAXYEAR then Inl ValueError
      else if (w \<le> 0 \<or> w \<ge> 53) \<and>
              \<not> (w = 53 \<and>
                 (let first_weekday = (ymd2ord y 1 1 + 6) mod 7
                  in first_weekday = 3 \<or> (first_weekday = 2 \<and> is_leap y)))
      then Inl ValueError
      else if d \<le> 0 \<or> d \<ge> 8 then Inl ValueError
      else Inr (ord2ymd (isoweek1monday y + (w - 1) * 7 + (d - 1))))"

text \<open>
  \<open>dt + timedelta(days=k)\<close> (and \<open>dt - timedelta(days=k)\<close> as \<open>add_days dt (- k)\<close>): the
  ordinal is moved and must stay within \<open>1 .. MAXORDINAL\<close>.
\<close>

definition add_days :: "date \<Rightarrow> int \<Rightarrow> exn + date" where
  "add_days dt k =
     (let ord = toordinal dt + k
      in if 0 < ord \<and> ord \<le> MAXORDINAL then Inr (ord2ymd ord) else Inl OverflowError)"

subsection \<open>Strings: formatting and parsing integers, \<open>str.split\<close>\<close>

definition digit_char :: "nat \<Rightarrow> char" where
  "digit_char k = char_of (48 + k)"

definition is_digit :: "char \<Rightarrow> bool" where
  "is_digit c \<longleftrightarrow> 48 \<le> (of_char c :: nat) \<and> (of_char c :: nat) \<le> 57"

definition digit_val :: "char \<Rightarrow> nat" where
  "digit_val c = of_char c - 48"

fun show_nat :: "nat \<Rightarrow> string" where
  "show_nat n = (if n < 10 then [digit_char n] else show_nat (n div 10) @ [digit_char (n mod 10)])"

declare show_nat.simps [simp del]

text \<open>
  The conversion \<open>"%0kd" % i\<close>: the decimal digits, a sign for a negative number, zeros
  in between up to the width \<open>k\<close>.
\<close>

definition fmt_d :: "nat \<Rightarrow> int \<Rightarrow> string" where
  "fmt_d k i =
     (if i < 0
      then CHR ''-'' # replicate (k - 1 - length (show_nat (nat (- i)))) CHR ''0''
             @ show_nat (nat (- i))
      else replicate (k - length (show_nat (nat i))) CHR ''0'' @ show_nat (nat i))"

text \<open>
  \<open>date.isoformat()\<close>, which is also what the \<open>sqlite3\<close> module binds for a \<open>date\<close>
  parameter: \<open>"%04d-%02d-%02d"\<close>.
\<close>

definition isoformat :: "date \<Rightarrow> string" where
  "isoformat dt =
     fmt_d 4 (year_of dt) @ ''-'' @ fmt_d 2 (month_of dt) @ ''-'' @ fmt_d 2 (day_of dt)"

text \<open>
  \<open>strftime("%Y-W%V")\<close>: the year of the \<^emph>\<open>calendar\<close> date, then the ISO week number.
  (\<open>%Y\<close> is written with four digits here; the C library may drop leading zeros for
  years before 1000, which no request of today's calendar reaches.)
\<close>

definition strftime_Y_W_V :: "date \<Rightarrow> string" where
  "strftime_Y_W_V dt =
     fmt_d 4 (year_of dt) @ ''-W'' @ fmt_d 2 (fst (snd (isocalendar dt)))"

text \<open>
  \<open>s.split(sep)\<close> for a non-empty separator: the pieces between the non-overlapping
  occurrences of \<open>sep\<close>, found from the left. \<open>acc\<close> is the piece being read, reversed.
\<close>

fun split_from :: "string \<Rightarrow> string \<Rightarrow> string \<Rightarrow> string list" where
  "split_from sep acc [] = [rev acc]"
| "split_from sep acc (c # cs) =
     (if sep \<noteq> [] \<and> take (length sep) (c # cs) = sep
      then rev acc # split_from sep [] (drop (length sep - 1) cs)
      else split_from sep (c # acc) cs)"

definition split :: "string \<Rightarrow> string \<Rightarrow> string list" where
  "split s sep = split_from sep [] s"

text \<open>
  \<open>int(s)\<close> on text: white space around the number is dropped (on ASCII text the
  characters 9 to 13 and 32), then an optional sign and decimal digits, where single
  underscores may stand between digits. \<open>None\<close> is the \<open>ValueError\<close>. Only ASCII text is
  modelled: the digits and spaces of other scripts that Python also accepts are
  rejected here.
\<close>

definition py_isspace :: "char \<Rightarrow> bool" where
  "py_isspace c \<longleftrightarrow>
     (9 \<le> (of_char c :: nat) \<and> (of_char c :: nat) \<le> 13) \<or> (of_char c :: nat) = 32"

definition strip :: "string \<Rightarrow> string" where
  "strip s = rev (dropWhile py_isspace (rev (dropWhile py_isspace s)))"

fun int_digits :: "nat \<Rightarrow> string \<Rightarrow> nat option" where
  "int_digits acc [] = Some acc"
| "int_digits acc (c # cs) =
     (if is_digit c then int_digits (acc * 10 + digit_val c) cs
      else if c = CHR ''_''
      then (case cs of
              [] \<Rightarrow> None
            | d # ds \<Rightarrow> if is_digit d then int_digits (acc * 10 + digit_val d) ds else None)
      else None)"

definition int_unsigned :: "string \<Rightarrow> nat option" where
  "int_unsigned s =
     (case s of
        [] \<Rightarrow> None
      | c # cs \<Rightarrow> if is_digit c then int_digits (digit_val c) cs else None)"

definition py_int :: "string \<Rightarrow> int option" where
  "py_int s =
     (case strip s of
        [] \<Rightarrow> None
      | c # cs \<Rightarrow>
          if c = CHR ''-'' then map_option (\<lambda>n. - int n) (int_unsigned cs)
          else if c = CHR ''+'' then map_option int (int_unsigned cs)
          else map_option int (int_unsigned (c # cs)))"

subsection \<open>What the libraries compute with doubles\<close>

text \<open>
  \<^item> \<open>to_float\<close> is Python's \<open>float\<close> on text, with \<open>None\<close> for its \<open>ValueError\<close>;
  \<^item> \<open>sql_sum\<close> is SQLite's \<open>SUM\<close> over two or more \<open>REAL\<close> values, in row order;
  \<^item> \<open>float_sum\<close> is Python's \<open>sum\<close> over a non-empty list of floats;
  \<^item> \<open>round2\<close> is Python's \<open>round(x, 2)\<close> of a float.

  Nothing is assumed about them: a property proved for every \<open>float_lib\<close> holds for the
  double arithmetic of whichever SQLite and Python run the program.
\<close>

record float_lib =
  to_float :: "string \<Rightarrow> rat option"
  sql_sum :: "rat list \<Rightarrow> rat"
  float_sum :: "rat list \<Rightarrow> rat"
  round2 :: "rat \<Rightarrow> rat"

subsection \<open>Storage: the tables \<open>users\<close> and \<open>expenses\<close>\<close>

record user_row =
  user_rowid :: int
  email :: string
  password :: string

record expense_row =
  expense_rowid :: int
  user_id :: int
  amount :: rat
  category :: string
  date :: string

text \<open>
  A table is the list of its rows in insertion order. \<open>users_seq\<close> and \<open>expenses_seq\<close>
  are the \<open>AUTOINCREMENT\<close> counters (the largest row id handed out so far).
\<close>

record db =
  users :: "user_row list"
  expenses :: "expense_row list"
  users_seq :: int
  expenses_seq :: int

datatype sql_error = IntegrityError

text \<open>
  \<open>INSERT INTO users (email, password) VALUES (?, ?)\<close> followed by \<open>commit\<close>. The column
  \<open>email\<close> is \<open>UNIQUE\<close>: a row with the same text makes the statement fail and leaves
  the table as it was.
\<close>

definition insert_user :: "string \<Rightarrow> string \<Rightarrow> db \<Rightarrow> sql_error + db" where
  "insert_user e p d =
     (if e \<in> set (map email (users d)) then Inl IntegrityError
      else let i = users_seq d + 1
           in Inr (d\<lparr>users := users d @ [\<lparr>user_rowid = i, email = e, password = p\<rparr>],
                     users_seq := i\<rparr>))"

text \<open>
  \<open>INSERT INTO expenses (user_id, amount, category, date) VALUES (?, ?, ?, ?)\<close> and
  \<open>commit\<close>. Nothing can reject the row: the values are present, and SQLite does not
  enforce the foreign key unless the connection asks for it, which \<open>get_db\<close> does not.
\<close>

definition insert_expense :: "int \<Rightarrow> rat \<Rightarrow> string \<Rightarrow> string \<Rightarrow> db \<Rightarrow> db" where
  "insert_expense u a c t d =
     (let i = expenses_seq d + 1
      in d\<lparr>expenses := expenses d
              @ [\<lparr>expense_rowid = i, user_id = u, amount = a, category = c, date = t\<rparr>],
           expenses_seq := i\<rparr>)"

text \<open>\<open>SELECT * FROM users WHERE email = ?\<close> and \<open>fetchone()\<close>.\<close>

definition select_user :: "string \<Rightarrow> db \<Rightarrow> user_row option" where
  "select_user e d = find (\<lambda>u. email u = e) (users d)"

text \<open>
  The \<open>WHERE\<close> clause of the dashboard query. \<open>date\<close> is a \<open>TEXT\<close> column and both bounds
  are bound as text, so \<open>BETWEEN\<close> compares strings.
\<close>

definition where_rows :: "int \<Rightarrow> string \<Rightarrow> string \<Rightarrow> db \<Rightarrow> expense_row list" where
  "where_rows u lo hi d =
     filter (\<lambda>e. user_id e = u \<and> lo \<le> date e \<and> date e \<le> hi) (expenses d)"

text \<open>
  \<open>SUM(amount)\<close> over the rows of one group. A group has at least one row; the sum of
  one value is that value (\<open>0.0 + x\<close> is exact), the sum of more is the library's.
\<close>

definition sum_real :: "float_lib \<Rightarrow> rat list \<Rightarrow> rat" where
  "sum_real lib xs = (case xs of [] \<Rightarrow> 0 | [x] \<Rightarrow> x | _ # _ # _ \<Rightarrow> sql_sum lib xs)"

text \<open>
  \<open>SELECT category, SUM(amount) ... GROUP BY category\<close>: one row per category among the
  selected rows. SQLite groups by sorting on the key, so the groups come out in
  ascending order of the category text; nothing in the program depends on more than
  the order being a function of the selected rows.
\<close>

definition group_totals :: "float_lib \<Rightarrow> expense_row list \<Rightarrow> (string \<times> rat) list" where
  "group_totals lib rows =
     map (\<lambda>c. (c, sum_real lib (map amount (filter (\<lambda>e. category e = c) rows))))
       (sort (remdups (map category rows)))"

definition select_totals ::
  "float_lib \<Rightarrow> int \<Rightarrow> string \<Rightarrow> string \<Rightarrow> db \<Rightarrow> (string \<times> rat) list"
where
  "select_totals lib u lo hi d = group_totals lib (where_rows u lo hi d)"

subsection \<open>Requests, sessions and responses\<close>

datatype http_method = GET | POST

type_synonym form = "string \<rightharpoonup> string"

text \<open>The session cookie holds at most the key \<open>user_id\<close>.\<close>

type_synonym session = "int option"

definition current_user :: "session \<Rightarrow> int option" where
  "current_user s = s"

text \<open>Python truth of \<open>session.get("user_id")\<close>: \<open>None\<close> and \<open>0\<close> are false.\<close>

definition truthy :: "int option \<Rightarrow> bool" where
  "truthy v = (case v of None \<Rightarrow> False | Some i \<Rightarrow> i \<noteq> 0)"

record dashboard_view =
  selected_week :: string
  total_spent :: rat
  top_category :: "string option"
  categories :: "string list"
  amounts :: "rat list"

datatype template_args = No_args | Error string | Dashboard dashboard_view

datatype response =
    Redirect string
  | Render string template_args
  | BadRequest
  | ServerError exn

subsection \<open>Routes: signup, login, logout\<close>

definition signup ::
  "(string \<Rightarrow> string \<Rightarrow> string) \<Rightarrow> string \<Rightarrow> http_method \<Rightarrow> form \<Rightarrow> db \<Rightarrow> response \<times> db"
where
  "signup generate_password_hash salt m frm d =
     (if m = POST
      then (case frm ''email'' of
              None \<Rightarrow> (BadRequest, d)
            | Some e \<Rightarrow>
               (case frm ''password'' of
                  None \<Rightarrow> (BadRequest, d)
                | Some pw \<Rightarrow>
                   (case insert_user e (generate_password_hash salt pw) d of
                      Inl IntegrityError \<Rightarrow>
                        (Render ''signup.html'' (Error ''Email already exists.''), d)
                    | Inr d' \<Rightarrow> (Redirect ''login'', d'))))
      else (Render ''signup.html'' No_args, d))"

definition login ::
  "(string \<Rightarrow> string \<Rightarrow> bool) \<Rightarrow> http_method \<Rightarrow> form \<Rightarrow> session \<Rightarrow> db \<Rightarrow> response \<times> session"
where
  "login check_password_hash m frm s d =
     (if m = POST
      then (case frm ''email'' of
              None \<Rightarrow> (BadRequest, s)
            | Some e \<Rightarrow>
               (case frm ''password'' of
                  None \<Rightarrow> (BadRequest, s)
                | Some pw \<Rightarrow>
                   (case select_user e d of
                      Some u \<Rightarrow>
                        if check_password_hash (password u) pw
                        then (Redirect ''dashboard'', Some (user_rowid u))
                        else (Render ''login.html'' (Error ''Invalid credentials.''), s)
                    | None \<Rightarrow> (Render ''login.html'' (Error ''Invalid credentials.''), s))))
      else (Render ''login.html'' No_args, s))"

definition logout :: "session \<Rightarrow> response \<times> session" where
  "logout s = (Redirect ''login'', None)"

subsection \<open>Route: dashboard\<close>

text \<open>
  The form part of a \<open>POST\<close>: \<open>float(request.form["amount"])\<close>, then the two other
  fields, then the insert and the commit.
\<close>

definition add_expense :: "float_lib \<Rightarrow> int \<Rightarrow> form \<Rightarrow> db \<Rightarrow> response + db" where
  "add_expense lib u frm d =
     (case frm ''amount'' of
        None \<Rightarrow> Inl BadRequest
      | Some txt \<Rightarrow>
         (case to_float lib txt of
            None \<Rightarrow> Inl (ServerError ValueError)
          | Some a \<Rightarrow>
             (case frm ''category'' of
                None \<Rightarrow> Inl BadRequest
              | Some c \<Rightarrow>
                 (case frm ''date'' of
                    None \<Rightarrow> Inl BadRequest
                  | Some t \<Rightarrow> Inr (insert_expense u a c t d)))))"

text \<open>
  \<open>year, week = map(int, selected_week.split("-W"))\<close>: the unpacking draws the first
  two items, converting each, and fails when one is missing or a third is there.
\<close>

definition unpack_year_week :: "string list \<Rightarrow> exn + int \<times> int" where
  "unpack_year_week parts =
     (case parts of
        [] \<Rightarrow> Inl ValueError
      | a # rest \<Rightarrow>
         (case py_int a of
            None \<Rightarrow> Inl ValueError
          | Some y \<Rightarrow>
             (case rest of
                [] \<Rightarrow> Inl ValueError
              | b # rest' \<Rightarrow>
                 (case py_int b of
                    None \<Rightarrow> Inl ValueError
                  | Some w \<Rightarrow> (case rest' of [] \<Rightarrow> Inr (y, w) | _ # _ \<Rightarrow> Inl ValueError)))))"

text \<open>
  Week selection: the week token that is echoed, and the first day of the window.
  An absent or empty \<open>week\<close> parameter selects the week of \<open>today\<close>.
\<close>

definition select_week :: "string option \<Rightarrow> date \<Rightarrow> exn + string \<times> date" where
  "select_week arg today =
     (if arg \<noteq> None \<and> arg \<noteq> Some []
      then (case unpack_year_week (split (the arg) ''-W'') of
              Inl x \<Rightarrow> Inl x
            | Inr (y, w) \<Rightarrow>
               (case fromisocalendar y w 1 of
                  Inl x \<Rightarrow> Inl x
                | Inr start_date \<Rightarrow> Inr (the arg, start_date)))
      else (case add_days today (- weekday today) of
              Inl x \<Rightarrow> Inl x
            | Inr start_date \<Rightarrow> Inr (strftime_Y_W_V today, start_date)))"

text \<open>
  \<open>round(sum(amounts), 2)\<close>. The sum of no amounts is the integer 0, which \<open>round\<close>
  returns as it is; the sum of one or more floats and its rounding are the library's.
\<close>

definition round_sum :: "float_lib \<Rightarrow> rat list \<Rightarrow> rat" where
  "round_sum lib xs = (if xs = [] then 0 else round2 lib (float_sum lib xs))"

text \<open>
  \<open>max(xs)\<close> of a non-empty list, and \<open>xs.index(v)\<close> (\<open>None\<close>: its \<open>ValueError\<close>). Both
  compare doubles, which is comparing the numbers they denote.
\<close>

fun py_max :: "rat list \<Rightarrow> rat" where
  "py_max [] = 0"
| "py_max (x # xs) = fold (\<lambda>y m. if y > m then y else m) xs x"

fun list_index :: "'a list \<Rightarrow> 'a \<Rightarrow> nat option" where
  "list_index [] v = None"
| "list_index (x # xs) v = (if x = v then Some 0 else map_option Suc (list_index xs v))"

text \<open>The data preparation after the query.\<close>

definition prepare ::
  "float_lib \<Rightarrow> string \<Rightarrow> (string \<times> rat) list \<Rightarrow> exn + dashboard_view"
where
  "prepare lib week rows =
     (let cs = map fst rows;
          as = map snd rows;
          total = round_sum lib as
      in if as \<noteq> []
         then (case list_index as (py_max as) of
                 None \<Rightarrow> Inl ValueError
               | Some i \<Rightarrow>
                   if i < length cs
                   then Inr \<lparr>selected_week = week, total_spent = total,
                             top_category = Some (cs ! i), categories = cs, amounts = as\<rparr>
                   else Inl IndexError)
         else Inr \<lparr>selected_week = week, total_spent = total,
                   top_category = None, categories = cs, amounts = as\<rparr>)"

text \<open>Everything after the insert: week selection, the query, the rendering.\<close>

definition render_week :: "float_lib \<Rightarrow> int \<Rightarrow> form \<Rightarrow> date \<Rightarrow> db \<Rightarrow> response" where
  "render_week lib u args today d =
     (case select_week (args ''week'') today of
        Inl x \<Rightarrow> ServerError x
      | Inr (week, start_date) \<Rightarrow>
         (case add_days start_date 6 of
            Inl x \<Rightarrow> ServerError x
          | Inr end_date \<Rightarrow>
             (case prepare lib week
                     (select_totals lib u (isoformat start_date) (isoformat end_date) d) of
                Inl x \<Rightarrow> ServerError x
              | Inr v \<Rightarrow> Render ''dashboard.html'' (Dashboard v))))"

definition dashboard ::
  "float_lib \<Rightarrow> http_method \<Rightarrow> session \<Rightarrow> form \<Rightarrow> form \<Rightarrow> date \<Rightarrow> db \<Rightarrow> response \<times> db"
where
  "dashboard lib m s frm args today d =
     (if \<not> truthy (current_user s) then (Redirect ''login'', d)
      else let u = the (current_user s)
           in if m = POST
              then (case add_expense lib u frm d of
                      Inl r \<Rightarrow> (r, d)
                    | Inr d' \<Rightarrow> (render_week lib u args today d', d'))
              else (render_week lib u args today d, d))"

subsection \<open>The calendar as the specification words it\<close>

text \<open>
  The definitions of this subsection do not come from the program. They say what a
  date value of \<open>datetime\<close> is, and they follow the words of the specification for the
  ISO week: \<^emph>\<open>week 1 is the week containing the year's first Thursday; weeks run
  Monday to Sunday\<close>. Days are counted by their ordinal.
\<close>






subsection \<open>Sample data\<close>

text \<open>
  A small database used where a property is shown at a concrete request: user 1 has
  three expenses in the week 2024-W03 (Monday 2024-01-15 to Sunday 2024-01-21) and
  one on the Monday after; user 2 has one expense in that week.
\<close>

definition demo_db :: db where
  "demo_db =
     \<lparr>users = [\<lparr>user_rowid = 1, email = ''a@b.c'', password = ''s$pw''\<rparr>,
               \<lparr>user_rowid = 2, email = ''d@e.f'', password = ''t$qr''\<rparr>],
      expenses =
        [\<lparr>expense_rowid = 1, user_id = 1, amount = 85 / 2, category = ''Food'', date = ''2024-01-17''\<rparr>,
         \<lparr>expense_rowid = 2, user_id = 1, amount = 100, category = ''Rent'', date = ''2024-01-15''\<rparr>,
         \<lparr>expense_rowid = 3, user_id = 2, amount = 1000, category = ''Food'', date = ''2024-01-18''\<rparr>,
         \<lparr>expense_rowid = 4, user_id = 1, amount = 15 / 2, category = ''Food'', date = ''2024-01-21''\<rparr>,
         \<lparr>expense_rowid = 5, user_id = 1, amount = 9, category = ''Food'', date = ''2024-01-22''\<rparr>],
      users_seq = 2, expenses_seq = 5\<rparr>"

definition empty_db :: db where
  "empty_db = \<lparr>users = [], expenses = [], users_seq = 0, expenses_seq = 0\<rparr>"

definition demo_form :: form where
  "demo_form = [''amount'' \<mapsto> ''42.50'', ''category'' \<mapsto> ''Food'', ''date'' \<mapsto> ''2024-01-17'']"

text \<open>
  A stand-in for the library on the sample data: \<open>float\<close> reads the one amount of
  \<open>demo_form\<close>, sums are exact and rounding is to the nearest hundredth, a tie going to
  the even one. On the sample amounts this is what double arithmetic gives: every
  sum of them is a double.
\<close>

definition demo_float :: "string \<Rightarrow> rat option" where
  "demo_float txt = (if txt = ''42.50'' then Some (85 / 2) else None)"

definition exact_round2 :: "rat \<Rightarrow> rat" where
  "exact_round2 x =
     (let f = \<lfloor>x * 100\<rfloor>; r = x * 100 - of_int f
      in of_int (if r < 1 / 2 then f else if r > 1 / 2 then f + 1
                 else if even f then f else f + 1) / 100)"

definition demo_lib :: float_lib where
  "demo_lib = \<lparr>to_float = demo_float, sql_sum = sum_list, float_sum = sum_list,
               round2 = exact_round2\<rparr>"





section \<open>Properties of the calendar\<close>

subsection \<open>Ordinals and calendar days\<close>









subsection \<open>The ordinal grows with the calendar day\<close>















subsection \<open>The ISO week of the program and of the specification\<close>




















section \<open>Properties of the strings\<close>

subsection \<open>Zero-padded decimals and their order\<close>

lemma of_char_digit_char: "k < 10 \<Longrightarrow> (of_char (digit_char k) :: nat) = 48 + k"
  by (simp add: digit_char_def)


lemma digit_char_eq: "a < 10 \<Longrightarrow> b < 10 \<Longrightarrow> digit_char a = digit_char b \<longleftrightarrow> a = b"
proof
  assume "a < 10" "b < 10" "digit_char a = digit_char b"
  then have "(of_char (digit_char a) :: nat) = of_char (digit_char b)" by simp
  with \<open>a < 10\<close> \<open>b < 10\<close> show "a = b" by (simp add: of_char_digit_char)
qed simp







lemma show_nat_nonempty: "show_nat n \<noteq> []"
  by (subst show_nat.simps) simp












subsection \<open>The order of ISO dates as text\<close>



subsection \<open>Parsing a week token\<close>




lemma digit_not_underscore: "is_digit c \<Longrightarrow> c \<noteq> CHR ''_''"
  by (auto simp: is_digit_def)











section \<open>Properties of the routes\<close>

subsection \<open>Looking up a user\<close>

lemma select_user_absent:
  "e \<notin> set (map email (users d)) \<Longrightarrow> select_user e d = None"
  by (auto simp: select_user_def find_None_iff)

lemma find_email_appended:
  "e \<notin> set (map email us) \<Longrightarrow>
   find (\<lambda>u. email u = e) (us @ [r]) = (if email r = e then Some r else None)"
  by (induction us) auto

subsection \<open>Signup\<close>

text \<open>
  Claim C3. A signup \<open>POST\<close> whose email is already in the \<open>users\<close> table: the insert
  fails with the integrity error of the \<open>UNIQUE\<close> column, the route catches it and
  answers with the signup form and the inline message, and the database after the
  request is the database before it (no new row, every stored row as it was).
\<close>

theorem signup_duplicate_email:
  assumes "frm ''email'' = Some e" and "frm ''password'' = Some pw"
    and "e \<in> set (map email (users d))"
  shows "insert_user e (generate_password_hash salt pw) d = Inl IntegrityError \<and>
         signup generate_password_hash salt POST frm d
           = (Render ''signup.html'' (Error ''Email already exists.''), d)"
  using assms by (simp add: signup_def insert_user_def)

theorem signup_duplicate_email_witness:
  "[''email'' \<mapsto> ''a@b.c'', ''password'' \<mapsto> ''pw''] ''email'' = Some ''a@b.c'' \<and>
   ''a@b.c'' \<in> set (map email (users
       \<lparr>users = [\<lparr>user_rowid = 1, email = ''a@b.c'', password = ''h''\<rparr>], expenses = [],
          users_seq = 1, expenses_seq = 0\<rparr>)) \<and>
   signup (\<lambda>salt pw. salt @ pw) ''s'' POST [''email'' \<mapsto> ''a@b.c'', ''password'' \<mapsto> ''pw'']
       \<lparr>users = [\<lparr>user_rowid = 1, email = ''a@b.c'', password = ''h''\<rparr>], expenses = [],
          users_seq = 1, expenses_seq = 0\<rparr>
     = (Render ''signup.html'' (Error ''Email already exists.''),
        \<lparr>users = [\<lparr>user_rowid = 1, email = ''a@b.c'', password = ''h''\<rparr>], expenses = [],
          users_seq = 1, expenses_seq = 0\<rparr>)"
  using signup_duplicate_email
    [of "[''email'' \<mapsto> ''a@b.c'', ''password'' \<mapsto> ''pw'']" "''a@b.c''" "''pw''"
        "\<lparr>users = [\<lparr>user_rowid = 1, email = ''a@b.c'', password = ''h''\<rparr>], expenses = [],
           users_seq = 1, expenses_seq = 0\<rparr>"
        "\<lambda>salt pw. salt @ pw" "''s''"]
  by simp

subsection \<open>Signup, then login\<close>

text \<open>
  Claim C4. For an email that is not registered yet, a signup \<open>POST\<close> redirects to the
  login page and stores one new row with that email and the hash made at signup; a
  login \<open>POST\<close> with the same form then finds that row, the hash verifies against the
  same password, the session holds that row's id and the answer redirects to the
  dashboard. That a hash verifies against the password it was made from is the
  contract of the two werkzeug functions, taken as the hypothesis on the parameters.
\<close>

theorem signup_then_login:
  assumes "frm ''email'' = Some e" and "frm ''password'' = Some pw"
    and "e \<notin> set (map email (users d))"
    and "check_password_hash (generate_password_hash salt pw) pw"
  shows "fst (signup generate_password_hash salt POST frm d) = Redirect ''login'' \<and>
         (\<exists>u. select_user e (snd (signup generate_password_hash salt POST frm d)) = Some u \<and>
              users (snd (signup generate_password_hash salt POST frm d)) = users d @ [u] \<and>
              email u = e \<and> password u = generate_password_hash salt pw \<and>
              login check_password_hash POST frm s
                  (snd (signup generate_password_hash salt POST frm d))
                = (Redirect ''dashboard'', Some (user_rowid u)))"
proof -
  define u where
    "u = \<lparr>user_rowid = users_seq d + 1, email = e, password = generate_password_hash salt pw\<rparr>"
  define d' where "d' = d\<lparr>users := users d @ [u], users_seq := users_seq d + 1\<rparr>"
  have ins: "insert_user e (generate_password_hash salt pw) d = Inr d'"
    using assms(3) by (simp add: insert_user_def Let_def d'_def u_def)
  have su: "signup generate_password_hash salt POST frm d = (Redirect ''login'', d')"
    using assms(1,2) ins by (simp add: signup_def)
  have sel: "select_user e d' = Some u"
    using find_email_appended [OF assms(3), of u] by (simp add: select_user_def d'_def u_def)
  have lg: "login check_password_hash POST frm s d' = (Redirect ''dashboard'', Some (user_rowid u))"
    using assms(1,2,4) sel by (simp add: login_def u_def)
  have "users d' = users d @ [u]" "email u = e" "password u = generate_password_hash salt pw"
    by (simp_all add: d'_def u_def)
  with su sel lg show ?thesis by auto
qed

theorem signup_then_login_witness:
  "''a@b.c'' \<notin> set (map email (users \<lparr>users = [], expenses = [], users_seq = 0, expenses_seq = 0\<rparr>)) \<and>
   (\<lambda>h pw. h = ''s$'' @ pw) ((\<lambda>salt pw. salt @ ''$'' @ pw) ''s'' ''pw'') ''pw'' \<and>
   fst (signup (\<lambda>salt pw. salt @ ''$'' @ pw) ''s'' POST
          [''email'' \<mapsto> ''a@b.c'', ''password'' \<mapsto> ''pw'']
          \<lparr>users = [], expenses = [], users_seq = 0, expenses_seq = 0\<rparr>) = Redirect ''login'' \<and>
   login (\<lambda>h pw. h = ''s$'' @ pw) POST [''email'' \<mapsto> ''a@b.c'', ''password'' \<mapsto> ''pw''] None
       (snd (signup (\<lambda>salt pw. salt @ ''$'' @ pw) ''s'' POST
          [''email'' \<mapsto> ''a@b.c'', ''password'' \<mapsto> ''pw'']
          \<lparr>users = [], expenses = [], users_seq = 0, expenses_seq = 0\<rparr>))
     = (Redirect ''dashboard'', Some 1)"
  using signup_then_login
    [of "[''email'' \<mapsto> ''a@b.c'', ''password'' \<mapsto> ''pw'']" "''a@b.c''" "''pw''"
        "\<lparr>users = [], expenses = [], users_seq = 0, expenses_seq = 0\<rparr>"
        "\<lambda>h pw. h = ''s$'' @ pw" "\<lambda>salt pw. salt @ ''$'' @ pw" "''s''" None]
  by (simp add: signup_def insert_user_def select_user_def)

subsection \<open>Login failures\<close>

text \<open>
  Claim C5. A login \<open>POST\<close> fails for one of two causes: no row of \<open>users\<close> has the
  email, or the row found has a hash that does not verify. From the same session, both
  give the same answer, the login form with the one message \<open>Invalid credentials.\<close>,
  and leave the session as it was; \<open>login\<close> never writes to the database.
\<close>

theorem login_failures_indistinguishable:
  assumes "frm1 ''email'' = Some e1" and "frm1 ''password'' = Some p1"
    and "frm2 ''email'' = Some e2" and "frm2 ''password'' = Some p2"
    and "e1 \<notin> set (map email (users d1))"
    and "select_user e2 d2 = Some u" and "\<not> check_password_hash (password u) p2"
  shows "login check_password_hash POST frm1 s d1 = login check_password_hash POST frm2 s d2 \<and>
         login check_password_hash POST frm2 s d2
           = (Render ''login.html'' (Error ''Invalid credentials.''), s)"
  using assms by (simp add: login_def select_user_absent)

theorem login_failures_indistinguishable_witness:
  "''x@y.z'' \<notin> set (map email (users
       \<lparr>users = [\<lparr>user_rowid = 1, email = ''a@b.c'', password = ''s$pw''\<rparr>], expenses = [],
          users_seq = 1, expenses_seq = 0\<rparr>)) \<and>
   select_user ''a@b.c''
       \<lparr>users = [\<lparr>user_rowid = 1, email = ''a@b.c'', password = ''s$pw''\<rparr>], expenses = [],
          users_seq = 1, expenses_seq = 0\<rparr>
     = Some \<lparr>user_rowid = 1, email = ''a@b.c'', password = ''s$pw''\<rparr> \<and>
   login (\<lambda>h pw. h = ''s$'' @ pw) POST [''email'' \<mapsto> ''x@y.z'', ''password'' \<mapsto> ''pw''] None
       \<lparr>users = [\<lparr>user_rowid = 1, email = ''a@b.c'', password = ''s$pw''\<rparr>], expenses = [],
          users_seq = 1, expenses_seq = 0\<rparr>
     = login (\<lambda>h pw. h = ''s$'' @ pw) POST [''email'' \<mapsto> ''a@b.c'', ''password'' \<mapsto> ''no''] None
       \<lparr>users = [\<lparr>user_rowid = 1, email = ''a@b.c'', password = ''s$pw''\<rparr>], expenses = [],
          users_seq = 1, expenses_seq = 0\<rparr>"
  using login_failures_indistinguishable
    [of "[''email'' \<mapsto> ''x@y.z'', ''password'' \<mapsto> ''pw'']" "''x@y.z''" "''pw''"
        "[''email'' \<mapsto> ''a@b.c'', ''password'' \<mapsto> ''no'']" "''a@b.c''" "''no''"
        "\<lparr>users = [\<lparr>user_rowid = 1, email = ''a@b.c'', password = ''s$pw''\<rparr>], expenses = [],
           users_seq = 1, expenses_seq = 0\<rparr>"
        "\<lparr>users = [\<lparr>user_rowid = 1, email = ''a@b.c'', password = ''s$pw''\<rparr>], expenses = [],
           users_seq = 1, expenses_seq = 0\<rparr>"
        "\<lparr>user_rowid = 1, email = ''a@b.c'', password = ''s$pw''\<rparr>"
        "\<lambda>h pw. h = ''s$'' @ pw" None]
  by (simp add: select_user_def)

subsection \<open>The session guard of the dashboard\<close>

text \<open>
  Claim C6. A request to the dashboard, \<open>GET\<close> or \<open>POST\<close>, whose session has no user id
  (or the id 0, which Python reads as false) is answered with the redirect to the login
  page, and the database is returned as it was: whatever the form holds, nothing is
  inserted.
\<close>

theorem dashboard_without_session:
  assumes "\<not> truthy (current_user s)"
  shows "dashboard lib m s frm args today d = (Redirect ''login'', d)"
  using assms by (simp add: dashboard_def)

theorem dashboard_without_session_witness:
  "\<not> truthy (current_user None) \<and>
   dashboard demo_lib POST None
       [''amount'' \<mapsto> ''1'', ''category'' \<mapsto> ''Food'', ''date'' \<mapsto> ''2024-01-17'']
       [''week'' \<mapsto> ''2024-W03''] (Date 2024 1 20)
       \<lparr>users = [], expenses = [], users_seq = 0, expenses_seq = 0\<rparr>
     = (Redirect ''login'', \<lparr>users = [], expenses = [], users_seq = 0, expenses_seq = 0\<rparr>)"
  using dashboard_without_session
    [of None demo_lib POST
        "[''amount'' \<mapsto> ''1'', ''category'' \<mapsto> ''Food'', ''date'' \<mapsto> ''2024-01-17'']"
        "[''week'' \<mapsto> ''2024-W03'']" "Date 2024 1 20"
        "\<lparr>users = [], expenses = [], users_seq = 0, expenses_seq = 0\<rparr>"]
  by (simp add: truthy_def current_user_def)

subsection \<open>The data preparation of the dashboard\<close>





lemma list_index_sound:
  "list_index xs v = Some i \<Longrightarrow> i < length xs \<and> xs ! i = v"
  by (induction xs arbitrary: i) (auto split: if_splits)






subsection \<open>Evaluating the route at the sample data\<close>

lemmas date_defs = toordinal_def ymd2ord_def days_before_year_def days_before_month_def
  DAYS_BEFORE_MONTH_def DAYS_IN_MONTH_def is_leap_def MAXORDINAL_def

lemmas int_parse_defs = py_int_def strip_def py_isspace_def int_unsigned_def is_digit_def
  digit_val_def

lemma split_2024_W03: "split ''2024-W03'' ''-W'' = [''2024'', ''03'']"
  by (simp add: split_def)

lemma py_int_2024: "py_int ''2024'' = Some 2024"
  by (simp add: int_parse_defs)

lemma py_int_03: "py_int ''03'' = Some 3"
  by (simp add: int_parse_defs)

lemma fromisocalendar_2024_3: "fromisocalendar 2024 3 1 = Inr (Date 2024 1 15)"
  by (simp add: fromisocalendar_def c_int_range_def MINYEAR_def MAXYEAR_def isoweek1monday_def
      ord2ymd_def Let_def date_defs)

lemma select_week_2024_W03:
  "select_week (Some ''2024-W03'') today = Inr (''2024-W03'', Date 2024 1 15)"
  by (simp add: select_week_def unpack_year_week_def split_2024_W03 py_int_2024 py_int_03
      fromisocalendar_2024_3)

lemma add_days_2024_1_15: "add_days (Date 2024 1 15) 6 = Inr (Date 2024 1 21)"
  by (simp add: add_days_def ord2ymd_def Let_def date_defs)

lemma isoformat_2024_1_15: "isoformat (Date 2024 1 15) = ''2024-01-15''"
  by code_simp

lemma isoformat_2024_1_21: "isoformat (Date 2024 1 21) = ''2024-01-21''"
  by code_simp

lemma select_totals_demo:
  "select_totals demo_lib 1 ''2024-01-15'' ''2024-01-21'' demo_db
     = [(''Food'', 50), (''Rent'', 100)]"
  by (simp add: select_totals_def where_rows_def group_totals_def sum_real_def demo_db_def
      demo_lib_def)

lemma prepare_demo:
  "prepare demo_lib wk [(''Food'', 50), (''Rent'', 100)]
     = Inr \<lparr>selected_week = wk, total_spent = 150, top_category = Some ''Rent'',
             categories = [''Food'', ''Rent''], amounts = [50, 100]\<rparr>"
  by (simp add: prepare_def round_sum_def demo_lib_def exact_round2_def)

lemma dashboard_demo:
  "dashboard demo_lib GET (Some 1) frm [''week'' \<mapsto> ''2024-W03''] today demo_db
     = (Render ''dashboard.html'' (Dashboard
          \<lparr>selected_week = ''2024-W03'', total_spent = 150, top_category = Some ''Rent'',
             categories = [''Food'', ''Rent''], amounts = [50, 100]\<rparr>), demo_db)"
  by (simp add: dashboard_def truthy_def current_user_def render_week_def select_week_2024_W03
      add_days_2024_1_15 isoformat_2024_1_15 isoformat_2024_1_21 select_totals_demo prepare_demo)


subsection \<open>Only the session user's expenses count\<close>

lemma where_rows_split:
  "where_rows u lo hi d
     = filter (\<lambda>e. lo \<le> date e \<and> date e \<le> hi) (filter (\<lambda>e. user_id e = u) (expenses d))"
  by (auto simp: where_rows_def intro: filter_cong)

lemma filter_proj_cong:
  "map f xs = map f ys \<Longrightarrow> map f (filter (\<lambda>e. P (f e)) xs) = map f (filter (\<lambda>e. P (f e)) ys)"
proof (induction xs arbitrary: ys)
  case Nil
  then show ?case by simp
next
  case (Cons x xs)
  then obtain y ys' where "ys = y # ys'" by (cases ys) auto
  with Cons show ?case by auto
qed

lemma group_totals_proj:
  "group_totals lib rows =
     map (\<lambda>c. (c, sum_real lib (map snd (filter (\<lambda>p. fst p = c) (map (\<lambda>e. (category e, amount e)) rows)))))
       (sort (remdups (map fst (map (\<lambda>e. (category e, amount e)) rows))))"
  by (simp add: group_totals_def filter_map comp_def)

lemma group_totals_cong:
  "map (\<lambda>e. (category e, amount e)) rows1 = map (\<lambda>e. (category e, amount e)) rows2 \<Longrightarrow>
   group_totals lib rows1 = group_totals lib rows2"
  by (simp only: group_totals_proj)

lemma select_totals_cong:
  assumes "map (\<lambda>e. (category e, amount e, date e)) (filter (\<lambda>e. user_id e = u) (expenses d1))
         = map (\<lambda>e. (category e, amount e, date e)) (filter (\<lambda>e. user_id e = u) (expenses d2))"
  shows "select_totals lib u lo hi d1 = select_totals lib u lo hi d2"
proof -
  let ?f = "\<lambda>e. (category e, amount e, date e)"
  let ?P = "\<lambda>p. lo \<le> snd (snd p) \<and> snd (snd p) \<le> hi"
  from filter_proj_cong [OF assms, of ?P]
  have "map ?f (where_rows u lo hi d1) = map ?f (where_rows u lo hi d2)"
    by (simp add: where_rows_split)
  then have "map (\<lambda>p. (fst p, fst (snd p))) (map ?f (where_rows u lo hi d1))
           = map (\<lambda>p. (fst p, fst (snd p))) (map ?f (where_rows u lo hi d2))"
    by simp
  then have "map (\<lambda>e. (category e, amount e)) (where_rows u lo hi d1)
           = map (\<lambda>e. (category e, amount e)) (where_rows u lo hi d2)"
    by (simp add: comp_def)
  then show ?thesis unfolding select_totals_def by (rule group_totals_cong)
qed

lemma render_week_cong:
  assumes "map (\<lambda>e. (category e, amount e, date e)) (filter (\<lambda>e. user_id e = u) (expenses d1))
         = map (\<lambda>e. (category e, amount e, date e)) (filter (\<lambda>e. user_id e = u) (expenses d2))"
  shows "render_week lib u args today d1 = render_week lib u args today d2"
  by (simp add: render_week_def select_totals_cong [OF assms] split: sum.splits prod.splits)

text \<open>
  Claim C9. For a session of user \<open>u\<close> and two databases whose \<open>expenses\<close> tables hold
  the same rows of \<open>u\<close> (in the same order), the dashboard gives the same response to
  the same request: the same categories and totals, the same \<open>total_spent\<close> and the
  same \<open>top_category\<close>. Rows of other users never reach the result. This holds for a
  \<open>POST\<close> as well, where the new row is added to both.
\<close>

theorem dashboard_only_own_expenses:
  assumes "current_user s = Some u"
    and "filter (\<lambda>e. user_id e = u) (expenses d1) = filter (\<lambda>e. user_id e = u) (expenses d2)"
  shows "fst (dashboard lib m s frm args today d1) = fst (dashboard lib m s frm args today d2)"
proof (cases "truthy (current_user s)")
  case False
  then show ?thesis by (simp add: dashboard_def)
next
  case True
  let ?f = "\<lambda>e. (category e, amount e, date e)"
  have g: "render_week lib u args today d1 = render_week lib u args today d2"
    by (rule render_week_cong) (simp add: assms(2))
  show ?thesis
  proof (cases "m = POST")
    case False
    with True g assms(1) show ?thesis by (simp add: dashboard_def)
  next
    case True
    show ?thesis
    proof (cases "add_expense lib u frm d1")
      case (Inl r)
      then have "add_expense lib u frm d2 = Inl r"
        by (auto simp: add_expense_def split: option.splits)
      with Inl \<open>truthy (current_user s)\<close> assms(1) True show ?thesis by (simp add: dashboard_def)
    next
      case (Inr d1')
      then obtain a c t where i1: "d1' = insert_expense u a c t d1"
        and i2: "add_expense lib u frm d2 = Inr (insert_expense u a c t d2)"
        by (auto simp: add_expense_def split: option.splits)
      have "map ?f (filter (\<lambda>e. user_id e = u) (expenses (insert_expense u a c t d1)))
          = map ?f (filter (\<lambda>e. user_id e = u) (expenses (insert_expense u a c t d2)))"
        by (simp add: insert_expense_def Let_def assms(2))
      then have "render_week lib u args today (insert_expense u a c t d1)
               = render_week lib u args today (insert_expense u a c t d2)"
        by (rule render_week_cong)
      with Inr i1 i2 \<open>truthy (current_user s)\<close> assms(1) True show ?thesis
        by (simp add: dashboard_def)
    qed
  qed
qed

theorem dashboard_only_own_expenses_witness:
  "current_user (Some 1) = Some 1 \<and>
   filter (\<lambda>e. user_id e = 1) (expenses demo_db)
     = filter (\<lambda>e. user_id e = 1)
         (expenses (demo_db\<lparr>expenses :=
            \<lparr>expense_rowid = 0, user_id = 2, amount = 77, category = ''Rent'', date = ''2024-01-16''\<rparr>
              # expenses demo_db\<rparr>)) \<and>
   fst (dashboard demo_lib GET (Some 1) demo_form [''week'' \<mapsto> ''2024-W03''] (Date 2024 1 20)
          (demo_db\<lparr>expenses :=
            \<lparr>expense_rowid = 0, user_id = 2, amount = 77, category = ''Rent'', date = ''2024-01-16''\<rparr>
              # expenses demo_db\<rparr>))
     = Render ''dashboard.html'' (Dashboard
          \<lparr>selected_week = ''2024-W03'', total_spent = 150, top_category = Some ''Rent'',
             categories = [''Food'', ''Rent''], amounts = [50, 100]\<rparr>)"
proof -
  have h: "filter (\<lambda>e. user_id e = 1) (expenses demo_db)
     = filter (\<lambda>e. user_id e = 1)
         (expenses (demo_db\<lparr>expenses :=
            \<lparr>expense_rowid = 0, user_id = 2, amount = 77, category = ''Rent'', date = ''2024-01-16''\<rparr>
              # expenses demo_db\<rparr>))"
    by simp
  have c: "current_user (Some 1) = Some 1" by (simp add: current_user_def)
  from dashboard_only_own_expenses [OF c h, of demo_lib GET demo_form
      "[''week'' \<mapsto> ''2024-W03'']" "Date 2024 1 20"]
  show ?thesis using h c by (simp add: dashboard_demo)
qed

subsection \<open>The insert comes before the week is read\<close>

text \<open>
  Claim C10. A \<open>POST\<close> with a session, an amount that \<open>float\<close> accepts, a category and
  a date inserts and commits the expense row before the \<open>week\<close> parameter is looked
  at. When the week parameter is one that week selection rejects (the parse or
  \<open>fromisocalendar\<close> raises \<open>x\<close>), the request ends in that exception, and the database
  after the request holds the new row: it is not the database before the request.
\<close>

theorem dashboard_post_commits_before_week:
  assumes "truthy (current_user s)"
    and "frm ''amount'' = Some txt" and "to_float lib txt = Some a"
    and "frm ''category'' = Some c" and "frm ''date'' = Some t"
    and "args ''week'' = Some w" and "select_week (Some w) today = Inl x"
  shows "dashboard lib POST s frm args today d
           = (ServerError x, insert_expense (the (current_user s)) a c t d) \<and>
         expenses (insert_expense (the (current_user s)) a c t d)
           = expenses d @ [\<lparr>expense_rowid = expenses_seq d + 1, user_id = the (current_user s),
                              amount = a, category = c, date = t\<rparr>] \<and>
         insert_expense (the (current_user s)) a c t d \<noteq> d"
proof -
  have "expenses (insert_expense (the (current_user s)) a c t d) \<noteq> expenses d"
    by (simp add: insert_expense_def Let_def)
  then have "insert_expense (the (current_user s)) a c t d \<noteq> d" by auto
  with assms show ?thesis
    by (simp add: dashboard_def add_expense_def insert_expense_def Let_def render_week_def)
qed

lemma select_week_notaweek: "select_week (Some ''notaweek'') today = Inl ValueError"
  by (simp add: select_week_def split_def unpack_year_week_def int_parse_defs)

lemma select_week_2024_W99: "select_week (Some ''2024-W99'') today = Inl ValueError"
  by (simp add: select_week_def split_def unpack_year_week_def int_parse_defs
      fromisocalendar_def c_int_range_def MINYEAR_def MAXYEAR_def)

theorem dashboard_post_commits_before_week_witness:
  "truthy (current_user (Some 1)) \<and>
   demo_form ''amount'' = Some ''42.50'' \<and> to_float demo_lib ''42.50'' = Some (85 / 2) \<and>
   select_week (Some ''notaweek'') (Date 2024 1 20) = Inl ValueError \<and>
   dashboard demo_lib POST (Some 1) demo_form [''week'' \<mapsto> ''notaweek''] (Date 2024 1 20) empty_db
     = (ServerError ValueError,
        \<lparr>users = [], expenses =
           [\<lparr>expense_rowid = 1, user_id = 1, amount = 85 / 2, category = ''Food'',
              date = ''2024-01-17''\<rparr>],
         users_seq = 0, expenses_seq = 1\<rparr>)"
  using dashboard_post_commits_before_week
    [of "Some 1" demo_form "''42.50''" demo_lib "85 / 2" "''Food''" "''2024-01-17''"
        "[''week'' \<mapsto> ''notaweek'']" "''notaweek''" "Date 2024 1 20" ValueError empty_db]
  by (simp add: truthy_def current_user_def demo_form_def demo_float_def demo_lib_def
      select_week_notaweek
      insert_expense_def empty_db_def)

subsection \<open>A malformed week token\<close>

text \<open>
  Claim C7, on the code. The route has no guard around the parse of the week token:
  for \<open>notaweek\<close> the conversion \<open>int("notaweek")\<close> raises \<open>ValueError\<close>, for \<open>2024-W99\<close>
  \<open>fromisocalendar\<close> raises \<open>ValueError\<close>, and in both cases the exception leaves the
  route (the response is the server error, not a validation message).
\<close>

theorem dashboard_malformed_week_raises:
  "dashboard lib GET (Some 1) frm [''week'' \<mapsto> ''notaweek''] today d
     = (ServerError ValueError, d) \<and>
   dashboard lib GET (Some 1) frm [''week'' \<mapsto> ''2024-W99''] today d
     = (ServerError ValueError, d)"
  by (simp add: dashboard_def truthy_def current_user_def render_week_def
      select_week_notaweek select_week_2024_W99)

subsection \<open>The default week at a year boundary\<close>

lemma isocalendar_2024_12_30: "isocalendar (Date 2024 12 30) = (2025, 1, 1)"
  by (simp add: isocalendar_def isoweek1monday_def Let_def date_defs)

lemma weekday_2024_12_30: "weekday (Date 2024 12 30) = 0"
  by (simp add: weekday_def date_defs)

lemma add_days_2024_12_30_0: "add_days (Date 2024 12 30) 0 = Inr (Date 2024 12 30)"
  by (simp add: add_days_def ord2ymd_def Let_def date_defs)

lemma add_days_2024_12_30_6: "add_days (Date 2024 12 30) 6 = Inr (Date 2025 1 5)"
  by (simp add: add_days_def ord2ymd_def Let_def date_defs)

lemma strftime_2024_12_30: "strftime_Y_W_V (Date 2024 12 30) = ''2024-W01''"
  by (simp add: strftime_Y_W_V_def isocalendar_2024_12_30) code_simp

lemma select_week_default_2024_12_30:
  "select_week None (Date 2024 12 30) = Inr (''2024-W01'', Date 2024 12 30)"
  by (simp add: select_week_def weekday_2024_12_30 add_days_2024_12_30_0 strftime_2024_12_30)

text \<open>
  Claim C8, on the code. Monday 2024-12-30 lies in ISO week 1 of ISO year 2025. A
  request on that day without a \<open>week\<close> parameter selects the right window, starting on
  2024-12-30, but echoes the token \<open>2024-W01\<close>: \<open>strftime("%Y-W%V")\<close> joins the calendar
  year (\<open>%Y\<close>) to the ISO week number, where the ISO year would be \<open>%G\<close>.
\<close>

theorem dashboard_default_week_token_at_year_boundary:
  "isocalendar (Date 2024 12 30) = (2025, 1, 1) \<and>
   select_week None (Date 2024 12 30) = Inr (''2024-W01'', Date 2024 12 30) \<and>
   dashboard lib GET (Some 1) frm Map.empty (Date 2024 12 30) empty_db
     = (Render ''dashboard.html'' (Dashboard
          \<lparr>selected_week = ''2024-W01'', total_spent = 0, top_category = None,
             categories = [], amounts = []\<rparr>), empty_db)"
  by (simp add: isocalendar_2024_12_30 select_week_default_2024_12_30 dashboard_def truthy_def
      current_user_def render_week_def add_days_2024_12_30_6 select_totals_def where_rows_def
      group_totals_def prepare_def round_sum_def empty_db_def)

subsection \<open>The window of the selected week\<close>

























end
